theory Spec2Isabelle
  imports Main
begin

section \<open>JavaScript values as the client observes them\<close>

text \<open>
  The client is the TypeScript class \<open>SophosClient\<close>. Its fields are optional strings and
  numbers, tested by JavaScript truthiness: an optional string is truthy when it is defined
  and not empty, a number when it is neither \<open>0\<close> nor \<open>NaN\<close>. Times are milliseconds since
  the epoch as \<open>Date.now()\<close> reports them (a natural number); the numbers read from JSON
  bodies are integers.
\<close>

datatype js_number = NaN | Num int

definition truthy :: "string option \<Rightarrow> bool" where
  "truthy s = (case s of None \<Rightarrow> False | Some x \<Rightarrow> x \<noteq> [])"

text \<open>\<open>a || b\<close> on an optional string \<open>a\<close> and a string \<open>b\<close>.\<close>

definition js_or :: "string option \<Rightarrow> string \<Rightarrow> string option" where
  "js_or a b = (if truthy a then a else Some b)"

text \<open>
  \<open>a || b\<close> where reading \<open>b\<close> may throw (\<open>Inl\<close>): \<open>b\<close> is read only when \<open>a\<close> is
  falsy.
\<close>

definition js_or_read :: "string option \<Rightarrow> 'e + string \<Rightarrow> 'e + string option" where
  "js_or_read a b =
     (if truthy a then Inr a
      else (case b of Inl e \<Rightarrow> Inl e | Inr v \<Rightarrow> Inr (js_or a v)))"

text \<open>An optional string inside a template literal: \<open>undefined\<close> prints as its name.\<close>

definition interp :: "string option \<Rightarrow> string" where
  "interp s = (case s of None \<Rightarrow> ''undefined'' | Some x \<Rightarrow> x)"

fun digits_of_nat :: "nat \<Rightarrow> string" where
  "digits_of_nat n =
     (if n < 10 then [''0123456789'' ! n]
      else digits_of_nat (n div 10) @ [''0123456789'' ! (n mod 10)])"

declare digits_of_nat.simps [simp del]

text \<open>A number inside a template literal (integers, decimal notation).\<close>

definition string_of_int :: "int \<Rightarrow> string" where
  "string_of_int i =
     (if i < 0 then CHR ''-'' # digits_of_nat (nat (- i)) else digits_of_nat (nat i))"

text \<open>
  \<open>parseInt(s, 10)\<close>: leading white space is skipped, one sign is read, then the longest
  prefix of decimal digits; no digit at all gives \<open>NaN\<close>.
\<close>

definition is_space :: "char \<Rightarrow> bool" where
  "is_space ch =
     (ch \<in> set [CHR 0x09, CHR 0x0A, CHR 0x0B, CHR 0x0C, CHR 0x0D, CHR 0x20, CHR 0xA0])"

definition is_digit :: "char \<Rightarrow> bool" where
  "is_digit ch = (48 \<le> (of_char ch :: nat) \<and> (of_char ch :: nat) \<le> 57)"

definition digit_val :: "char \<Rightarrow> nat" where
  "digit_val ch = of_char ch - 48"

definition parseInt10 :: "string \<Rightarrow> js_number" where
  "parseInt10 s =
     (let t = dropWhile is_space s;
          neg = (case t of [] \<Rightarrow> False | ch # _ \<Rightarrow> ch = CHR ''-'');
          u = (case t of [] \<Rightarrow> [] | ch # r \<Rightarrow> if ch = CHR ''+'' \<or> ch = CHR ''-'' then r else t);
          z = takeWhile is_digit u
      in if z = [] then NaN
         else Num ((if neg then - 1 else 1) * int (foldl (\<lambda>a d. 10 * a + digit_val d) 0 z)))"

section \<open>Configuration, wire types and errors\<close>

record SophosConfig =
  clientId :: string
  clientSecret :: string
  configTenantId :: "string option"
  apiUrl :: "string option"
  authUrl :: string
  globalUrl :: string
  timeout :: int

record SophosTokenResponse =
  access_token :: string
  token_type :: string
  expires_in :: int
  refresh_token :: "string option"
  errorCode :: "string option"
  message :: "string option"

datatype IdType = tenant | partner | organization

record ApiHosts =
  global :: string
  dataRegion :: string

text \<open>
  The discovery answer as declared, except that \<open>apiHosts\<close> may be missing from the
  object the server sent (\<open>None\<close>): the cast of \<open>json()\<close> checks nothing.
\<close>

record SophosWhoamiResponse =
  whoamiId :: string
  idType :: IdType
  apiHosts :: "ApiHosts option"

text \<open>
  The parsed JSON body of a data call: the two properties the error path reads
  (\<open>message\<close>, \<open>error\<close>) and the value itself, of the caller's type \<open>T\<close>.
\<close>

record 'a ApiBody =
  bodyMessage :: "string option"
  bodyError :: "string option"
  bodyValue :: 'a

text \<open>A thrown JavaScript value that is not one of the client's own error classes.\<close>

record JsError =
  instanceofError :: bool
  errName :: string

text \<open>
  The three error classes: \<open>SophosAuthError\<close> and \<open>SophosRateLimitError\<close> extend
  \<open>SophosClientError\<close>; the rate-limit constructor passes the status 429 to its parent.
\<close>

datatype thrown =
    SophosClientError string "nat option"
  | SophosAuthError string "nat option"
  | SophosRateLimitError string "js_number option"
  | Other JsError

fun instanceofSophosClientError :: "thrown \<Rightarrow> bool" where
  "instanceofSophosClientError (Other _) = False"
| "instanceofSophosClientError _ = True"

fun instanceofSophosAuthError :: "thrown \<Rightarrow> bool" where
  "instanceofSophosAuthError (SophosAuthError _ _) = True"
| "instanceofSophosAuthError _ = False"

fun instanceofSophosRateLimitError :: "thrown \<Rightarrow> bool" where
  "instanceofSophosRateLimitError (SophosRateLimitError _ _) = True"
| "instanceofSophosRateLimitError _ = False"

fun statusCode :: "thrown \<Rightarrow> nat option" where
  "statusCode (SophosClientError _ sc) = sc"
| "statusCode (SophosAuthError _ sc) = sc"
| "statusCode (SophosRateLimitError _ _) = Some 429"
| "statusCode (Other _) = None"

fun retryAfter :: "thrown \<Rightarrow> js_number option" where
  "retryAfter (SophosRateLimitError _ ra) = ra"
| "retryAfter _ = None"

fun errorMessage :: "thrown \<Rightarrow> string" where
  "errorMessage (SophosClientError m _) = m"
| "errorMessage (SophosAuthError m _) = m"
| "errorMessage (SophosRateLimitError m _) = m"
| "errorMessage (Other _) = []"

section \<open>The network\<close>

text \<open>
  What \<open>response.json()\<close> gives: the promise rejects (the body is not JSON), or it
  resolves with \<open>null\<close>, or with a value that the call site casts to its type \<open>'b\<close>.
  Reading a property of \<open>null\<close> throws a \<open>TypeError\<close>.
\<close>

datatype 'b json = Unparsable | Null | Object 'b

text \<open>
  What the client reads of a \<open>Response\<close>: the status line, the \<open>Retry-After\<close> header,
  \<open>text()\<close> (\<open>None\<close> when the promise rejects) and \<open>json()\<close>.
\<close>

record 'b Response =
  status :: nat
  statusText :: string
  retryAfterHeader :: "string option"
  bodyText :: "string option"
  bodyJson :: "'b json"

definition ok :: "'b Response \<Rightarrow> bool" where
  "ok r = (200 \<le> status r \<and> status r \<le> 299)"

text \<open>
  \<open>fetch\<close> either resolves with a response or rejects. When the timer of
  \<open>createAbortSignal\<close> fires first, it rejects with an \<open>Error\<close> named \<open>AbortError\<close>.
\<close>

datatype 'b outcome = Resolved "'b Response" | Rejected JsError

definition AbortError :: JsError where
  "AbortError = \<lparr>instanceofError = True, errName = ''AbortError''\<rparr>"

definition SyntaxError :: JsError where
  "SyntaxError = \<lparr>instanceofError = True, errName = ''SyntaxError''\<rparr>"

definition TypeError :: JsError where
  "TypeError = \<lparr>instanceofError = True, errName = ''TypeError''\<rparr>"

datatype 'q payload = NoBody | FormBody "(string \<times> string) list" | JsonBody 'q

record 'q Request =
  url :: string
  searchParams :: "(string \<times> string) list"
  httpMethod :: string
  headers :: "(string \<times> string) list"
  body :: "'q payload"

text \<open>One entry per executed \<open>fetch\<close>, tagged with the statement that issued it.\<close>

datatype 'q call = TokenCall "'q Request" | WhoamiCall "'q Request" | ApiCall "'q Request"

text \<open>
  The environment of a client: the clock, the outcome and the duration of the \<open>k\<close>-th
  \<open>fetch\<close> of the run (by the statement that issues it), which strings \<open>new URL\<close>
  accepts, and the calls made so far.
\<close>

record ('a, 'q) world =
  now :: nat
  latency :: "nat \<Rightarrow> nat"
  tokenNet :: "nat \<Rightarrow> SophosTokenResponse outcome"
  whoamiNet :: "nat \<Rightarrow> SophosWhoamiResponse outcome"
  apiNet :: "nat \<Rightarrow> 'a ApiBody outcome"
  validUrl :: "string \<Rightarrow> bool"
  calls :: "'q call list"

definition advance :: "'q call \<Rightarrow> ('a, 'q) world \<Rightarrow> ('a, 'q) world" where
  "advance cl w =
     w\<lparr>now := now w + latency w (length (calls w)), calls := calls w @ [cl]\<rparr>"

definition fetchToken ::
  "'q Request \<Rightarrow> ('a, 'q) world \<Rightarrow> SophosTokenResponse outcome \<times> ('a, 'q) world" where
  "fetchToken rq w = (tokenNet w (length (calls w)), advance (TokenCall rq) w)"

definition fetchWhoami ::
  "'q Request \<Rightarrow> ('a, 'q) world \<Rightarrow> SophosWhoamiResponse outcome \<times> ('a, 'q) world" where
  "fetchWhoami rq w = (whoamiNet w (length (calls w)), advance (WhoamiCall rq) w)"

definition fetchApi ::
  "'q Request \<Rightarrow> ('a, 'q) world \<Rightarrow> 'a ApiBody outcome \<times> ('a, 'q) world" where
  "fetchApi rq w = (apiNet w (length (calls w)), advance (ApiCall rq) w)"

definition isAbort :: "JsError \<Rightarrow> bool" where
  "isAbort e = (instanceofError e \<and> errName e = ''AbortError'')"

section \<open>The client\<close>

record SophosClient =
  config :: SophosConfig
  accessToken :: "string option"
  tokenExpiresAt :: "int option"
  dataRegionUrl :: "string option"
  tenantId :: "string option"

definition newClient :: "SophosConfig \<Rightarrow> SophosClient" where
  "newClient cfg =
     \<lparr>config = cfg, accessToken = None, tokenExpiresAt = None,
      dataRegionUrl = apiUrl cfg, tenantId = configTenantId cfg\<rparr>"

definition tokenRequest :: "SophosConfig \<Rightarrow> 'q Request" where
  "tokenRequest cfg =
     \<lparr>url = authUrl cfg, searchParams = [], httpMethod = ''POST'',
      headers = [(''Content-Type'', ''application/x-www-form-urlencoded'')],
      body = FormBody [(''grant_type'', ''client_credentials''), (''client_id'', clientId cfg),
                       (''client_secret'', clientSecret cfg), (''scope'', ''token'')]\<rparr>"

text \<open>The cache test of \<open>authenticate\<close>: token truthy, expiry truthy, and not yet reached.\<close>

definition cachedToken :: "SophosClient \<Rightarrow> nat \<Rightarrow> string option" where
  "cachedToken c t =
     (case (accessToken c, tokenExpiresAt c) of
        (Some tok, Some ex) \<Rightarrow> if tok \<noteq> [] \<and> ex \<noteq> 0 \<and> int t < ex then Some tok else None
      | _ \<Rightarrow> None)"

definition authenticate ::
  "SophosClient \<Rightarrow> ('a, 'q) world \<Rightarrow> (thrown + string) \<times> SophosClient \<times> ('a, 'q) world" where
  "authenticate c w =
     (case cachedToken c (now w) of
        Some tok \<Rightarrow> (Inr tok, c, w)
      | None \<Rightarrow>
          (case fetchToken (tokenRequest (config c)) w of
             (Rejected e, w1) \<Rightarrow>
               if isAbort e
               then (Inl (SophosClientError
                       (''OAuth2 token request timed out after '' @
                        string_of_int (timeout (config c)) @ ''ms'') None), c, w1)
               else (Inl (Other e), c, w1)
           | (Resolved r, w1) \<Rightarrow>
               if \<not> ok r
               then (Inl (SophosAuthError
                       (''OAuth2 authentication failed ('' @ digits_of_nat (status r) @ ''): '' @
                        (case bodyText r of None \<Rightarrow> ''Unknown error'' | Some t \<Rightarrow> t))
                       (Some (status r))), c, w1)
               else
                 (case bodyJson r of
                    Unparsable \<Rightarrow> (Inl (Other SyntaxError), c, w1)
                  | Null \<Rightarrow> (Inl (Other TypeError), c, w1)
                  | Object tokenData \<Rightarrow>
                      if truthy (errorCode tokenData)
                      then (Inl (SophosAuthError
                              (''OAuth2 error: '' @ interp (errorCode tokenData) @ '' '' @
                               [CHR 0xE2, CHR 0x80, CHR 0x94] @ '' '' @
                               interp (message tokenData)) None), c, w1)
                      else
                        (Inr (access_token tokenData),
                         c\<lparr>accessToken := Some (access_token tokenData),
                           tokenExpiresAt :=
                             Some (int (now w1) + (expires_in tokenData - 60) * 1000)\<rparr>,
                         w1))))"

definition whoamiRequest :: "SophosConfig \<Rightarrow> string \<Rightarrow> 'q Request" where
  "whoamiRequest cfg token =
     \<lparr>url = globalUrl cfg @ ''/whoami/v1'', searchParams = [], httpMethod = ''GET'',
      headers = [(''Authorization'', ''Bearer '' @ token)], body = NoBody\<rparr>"

text \<open>
  The two reads of the discovery answer, \<open>whoami.apiHosts.dataRegion\<close> and \<open>whoami.id\<close>:
  a property of \<open>null\<close> or of a missing \<open>apiHosts\<close> cannot be read.
\<close>

definition readDataRegion :: "SophosWhoamiResponse json \<Rightarrow> thrown + string" where
  "readDataRegion whoami =
     (case whoami of
        Object wh \<Rightarrow>
          (case apiHosts wh of None \<Rightarrow> Inl (Other TypeError) | Some hosts \<Rightarrow> Inr (dataRegion hosts))
      | _ \<Rightarrow> Inl (Other TypeError))"

definition readId :: "SophosWhoamiResponse json \<Rightarrow> thrown + string" where
  "readId whoami =
     (case whoami of Object wh \<Rightarrow> Inr (whoamiId wh) | _ \<Rightarrow> Inl (Other TypeError))"

definition resolved :: "SophosClient \<Rightarrow> bool" where
  "resolved c = (truthy (dataRegionUrl c) \<and> truthy (tenantId c))"

definition discoverTenant ::
  "SophosClient \<Rightarrow> ('a, 'q) world \<Rightarrow> (thrown + unit) \<times> SophosClient \<times> ('a, 'q) world" where
  "discoverTenant c w =
     (if resolved c then (Inr (), c, w)
      else
        (case authenticate c w of
           (Inl e, c1, w1) \<Rightarrow> (Inl e, c1, w1)
         | (Inr token, c1, w1) \<Rightarrow>
             (case fetchWhoami (whoamiRequest (config c1) token) w1 of
                (Rejected e, w2) \<Rightarrow> (Inl (Other e), c1, w2)
              | (Resolved r, w2) \<Rightarrow>
                  if \<not> ok r
                  then (Inl (SophosClientError
                          (''Tenant discovery failed ('' @ digits_of_nat (status r) @ '')'')
                          (Some (status r))), c1, w2)
                  else
                    if bodyJson r = Unparsable then (Inl (Other SyntaxError), c1, w2)
                    else
                      (case js_or_read (dataRegionUrl c1) (readDataRegion (bodyJson r)) of
                         Inl e \<Rightarrow> (Inl e, c1, w2)
                       | Inr region \<Rightarrow>
                           (case js_or_read (tenantId c1) (readId (bodyJson r)) of
                              Inl e \<Rightarrow> (Inl e, c1\<lparr>dataRegionUrl := region\<rparr>, w2)
                            | Inr tid \<Rightarrow>
                                (Inr (), c1\<lparr>dataRegionUrl := region, tenantId := tid\<rparr>,
                                 w2))))))"

section \<open>Request dispatch\<close>

text \<open>
  A value of a query parameter; \<open>None\<close> in the parameter list is \<open>undefined\<close>, and
  an absent parameter object is \<open>None\<close> for the whole list.
\<close>

datatype param = PString string | PNumber int | PBoolean bool

fun String :: "param \<Rightarrow> string" where
  "String (PString s) = s"
| "String (PNumber n) = string_of_int n"
| "String (PBoolean b) = (if b then ''true'' else ''false'')"

text \<open>\<open>URLSearchParams.set\<close>: the first pair of that name is replaced and the others
  removed; a new name is appended.\<close>

fun setParam :: "string \<Rightarrow> string \<Rightarrow> (string \<times> string) list \<Rightarrow> (string \<times> string) list" where
  "setParam k v [] = [(k, v)]"
| "setParam k v (p # ps) =
     (if fst p = k then (k, v) # filter (\<lambda>x. fst x \<noteq> k) ps else p # setParam k v ps)"

fun addParams ::
  "(string \<times> param option) list \<Rightarrow> (string \<times> string) list \<Rightarrow> (string \<times> string) list" where
  "addParams [] sp = sp"
| "addParams ((key, None) # kvs) sp = addParams kvs sp"
| "addParams ((key, Some v) # kvs) sp = addParams kvs (setParam key (String v) sp)"

text \<open>
  What \<open>request\<close> resolves with: the empty object on 204, the parsed body otherwise
  (which may be \<open>null\<close>).
\<close>

datatype 'b reply = EmptyObject | NullValue | Parsed 'b

definition handleErrorResponse ::
  "'a ApiBody Response \<Rightarrow> SophosClient \<Rightarrow> thrown \<times> SophosClient" where
  "handleErrorResponse response c =
     (let errorMsg0 = digits_of_nat (status response) @ '' '' @ statusText response;
          errorMsg =
            (case bodyJson response of
               Unparsable \<Rightarrow> errorMsg0
             | Null \<Rightarrow> errorMsg0
             | Object errorBody \<Rightarrow>
                 if truthy (bodyMessage errorBody)
                 then errorMsg0 @ '': '' @ interp (bodyMessage errorBody)
                 else if truthy (bodyError errorBody)
                 then errorMsg0 @ '': '' @ interp (bodyError errorBody)
                 else errorMsg0)
      in if status response = 401 \<or> status response = 403
         then (SophosAuthError (''Authentication failed: '' @ errorMsg) (Some (status response)),
               c\<lparr>accessToken := None, tokenExpiresAt := None\<rparr>)
         else if status response = 429
         then (SophosRateLimitError (''Rate limited: '' @ errorMsg)
                 (case retryAfterHeader response of
                    None \<Rightarrow> None
                  | Some h \<Rightarrow> if h \<noteq> [] then Some (parseInt10 h) else None),
               c)
         else (SophosClientError (''Request failed: '' @ errorMsg) (Some (status response)), c))"

text \<open>
  The base of the target: \<open>useGlobalUrl ? this.config.globalUrl : this.dataRegionUrl!\<close>,
  as the template literal of \<open>new URL\<close> prints it.
\<close>

definition baseUrl :: "bool \<Rightarrow> SophosClient \<Rightarrow> string" where
  "baseUrl useGlobalUrl c =
     (if useGlobalUrl then globalUrl (config c) else interp (dataRegionUrl c))"

definition apiRequest ::
  "SophosClient \<Rightarrow> string \<Rightarrow> string \<Rightarrow> string \<Rightarrow> (string \<times> param option) list option \<Rightarrow>
   'q option \<Rightarrow> bool \<Rightarrow> string \<Rightarrow> 'q Request" where
  "apiRequest c token method base params bdy useGlobalUrl endpoint =
     \<lparr>url = base @ endpoint,
      searchParams = (case params of None \<Rightarrow> [] | Some kvs \<Rightarrow> addParams kvs []),
      httpMethod = method,
      headers =
        [(''Authorization'', ''Bearer '' @ token), (''Content-Type'', ''application/json''),
         (''Accept'', ''application/json'')] @
        (if \<not> useGlobalUrl \<and> truthy (tenantId c)
         then [(''X-Tenant-ID'', interp (tenantId c))] else []),
      body = (case bdy of None \<Rightarrow> NoBody | Some b \<Rightarrow> JsonBody b)\<rparr>"

text \<open>
  \<open>request(method, endpoint, params, body, useGlobalUrl)\<close>. A body is a JavaScript
  object (always truthy) or absent; its serialisation is left to the transport.
\<close>

definition request ::
  "string \<Rightarrow> string \<Rightarrow> (string \<times> param option) list option \<Rightarrow> 'q option \<Rightarrow> bool \<Rightarrow>
   SophosClient \<Rightarrow> ('a, 'q) world \<Rightarrow>
   (thrown + 'a ApiBody reply) \<times> SophosClient \<times> ('a, 'q) world" where
  "request method endpoint params bdy useGlobalUrl c w =
     (case discoverTenant c w of
        (Inl e, c1, w1) \<Rightarrow> (Inl e, c1, w1)
      | (Inr _, c1, w1) \<Rightarrow>
          (case authenticate c1 w1 of
             (Inl e, c2, w2) \<Rightarrow> (Inl e, c2, w2)
           | (Inr token, c2, w2) \<Rightarrow>
               (let base = baseUrl useGlobalUrl c2
                in if \<not> validUrl w2 (base @ endpoint) then (Inl (Other TypeError), c2, w2)
                   else
                     (case fetchApi
                             (apiRequest c2 token method base params bdy useGlobalUrl endpoint)
                             w2 of
                        (Rejected e, w3) \<Rightarrow>
                          if isAbort e
                          then (Inl (SophosClientError
                                  (''Sophos Central API timeout after '' @
                                   string_of_int (timeout (config c2)) @ ''ms'') None), c2, w3)
                          else (Inl (Other e), c2, w3)
                      | (Resolved response, w3) \<Rightarrow>
                          if \<not> ok response
                          then (case handleErrorResponse response c2 of
                                  (e, c3) \<Rightarrow> (Inl e, c3, w3))
                          else if status response = 204 then (Inr EmptyObject, c2, w3)
                          else
                            (case bodyJson response of
                               Unparsable \<Rightarrow> (Inl (Other SyntaxError), c2, w3)
                             | Null \<Rightarrow> (Inr NullValue, c2, w3)
                             | Object b \<Rightarrow> (Inr (Parsed b), c2, w3))))))"

definition get ::
  "string \<Rightarrow> (string \<times> param option) list option \<Rightarrow> bool \<Rightarrow>
   SophosClient \<Rightarrow> ('a, 'q) world \<Rightarrow>
   (thrown + 'a ApiBody reply) \<times> SophosClient \<times> ('a, 'q) world" where
  "get endpoint params useGlobalUrl = request ''GET'' endpoint params None useGlobalUrl"

definition post ::
  "string \<Rightarrow> 'q option \<Rightarrow> (string \<times> param option) list option \<Rightarrow> bool \<Rightarrow>
   SophosClient \<Rightarrow> ('a, 'q) world \<Rightarrow>
   (thrown + 'a ApiBody reply) \<times> SophosClient \<times> ('a, 'q) world" where
  "post endpoint bdy params useGlobalUrl = request ''POST'' endpoint params bdy useGlobalUrl"

definition patch ::
  "string \<Rightarrow> 'q option \<Rightarrow> (string \<times> param option) list option \<Rightarrow>
   SophosClient \<Rightarrow> ('a, 'q) world \<Rightarrow>
   (thrown + 'a ApiBody reply) \<times> SophosClient \<times> ('a, 'q) world" where
  "patch endpoint bdy params = request ''PATCH'' endpoint params bdy False"

definition delete ::
  "string \<Rightarrow> (string \<times> param option) list option \<Rightarrow>
   SophosClient \<Rightarrow> ('a, 'q) world \<Rightarrow>
   (thrown + 'a ApiBody reply) \<times> SophosClient \<times> ('a, 'q) world" where
  "delete endpoint params = request ''DELETE'' endpoint params None False"

section \<open>Sequences of requests\<close>

text \<open>
  A caller issues requests one after the other, time passing between them; a failed
  request is reported to the caller and the next one is issued all the same.
\<close>

record 'q operation =
  opDelay :: nat
  opMethod :: string
  opEndpoint :: string
  opParams :: "(string \<times> param option) list option"
  opBody :: "'q option"
  opGlobal :: bool

fun run ::
  "'q operation list \<Rightarrow> SophosClient \<Rightarrow> ('a, 'q) world \<Rightarrow> SophosClient \<times> ('a, 'q) world" where
  "run [] c w = (c, w)"
| "run (x # xs) c w =
     (case request (opMethod x) (opEndpoint x) (opParams x) (opBody x) (opGlobal x) c
             (w\<lparr>now := now w + opDelay x\<rparr>) of
        (_, c', w') \<Rightarrow> run xs c' w')"

fun isWhoamiCall :: "'q call \<Rightarrow> bool" where
  "isWhoamiCall (WhoamiCall _) = True"
| "isWhoamiCall _ = False"

definition discoveryCalls :: "('a, 'q) world \<Rightarrow> 'q call list" where
  "discoveryCalls w = filter isWhoamiCall (calls w)"

text \<open>The calls an operation added to the log of the world it started in.\<close>

definition newCalls :: "('a, 'q) world \<Rightarrow> ('a, 'q) world \<Rightarrow> 'q call list" where
  "newCalls w w' = drop (length (calls w)) (calls w')"

section \<open>Example environments\<close>

definition exampleConfig :: SophosConfig where
  "exampleConfig =
     \<lparr>clientId = ''id'', clientSecret = ''secret'', configTenantId = None, apiUrl = None,
      authUrl = ''https://id.sophos.com/api/v2/oauth2/token'',
      globalUrl = ''https://api.central.sophos.com'', timeout = 30000\<rparr>"

definition configuredConfig :: SophosConfig where
  "configuredConfig =
     exampleConfig\<lparr>configTenantId := Some ''tenant-7'',
                    apiUrl := Some ''https://api-eu01.central.sophos.com''\<rparr>"

definition respond :: "nat \<Rightarrow> 'b json \<Rightarrow> 'b outcome" where
  "respond st b =
     Resolved \<lparr>status = st, statusText = ''status'', retryAfterHeader = None,
               bodyText = Some ''text'', bodyJson = b\<rparr>"

definition tokenBody :: "string \<Rightarrow> int \<Rightarrow> SophosTokenResponse" where
  "tokenBody tok secs =
     \<lparr>access_token = tok, token_type = ''bearer'', expires_in = secs, refresh_token = None,
      errorCode = None, message = None\<rparr>"

definition whoamiBody :: SophosWhoamiResponse where
  "whoamiBody =
     \<lparr>whoamiId = ''tenant-9'', idType = tenant,
      apiHosts = Some \<lparr>global = ''https://api.central.sophos.com'',
                       dataRegion = ''https://api-us03.central.sophos.com''\<rparr>\<rparr>"

definition emptyBody :: "unit ApiBody" where
  "emptyBody = \<lparr>bodyMessage = None, bodyError = None, bodyValue = ()\<rparr>"

text \<open>
  A world starting at time \<open>t\<close> with an empty log, in which every fetch takes 5 ms and
  the three endpoints always answer the same way.
\<close>

definition serverWorld ::
  "nat \<Rightarrow> SophosTokenResponse outcome \<Rightarrow> SophosWhoamiResponse outcome \<Rightarrow>
   unit ApiBody outcome \<Rightarrow> (unit, unit) world" where
  "serverWorld t tok who api =
     \<lparr>now = t, latency = (\<lambda>_. 5), tokenNet = (\<lambda>_. tok), whoamiNet = (\<lambda>_. who),
      apiNet = (\<lambda>_. api), validUrl = (\<lambda>_. True), calls = []\<rparr>"

definition okToken :: "SophosTokenResponse outcome" where
  "okToken = respond 200 (Object (tokenBody ''tok1'' 3600))"

definition okWhoami :: "SophosWhoamiResponse outcome" where
  "okWhoami = respond 200 (Object whoamiBody)"

definition okApi :: "unit ApiBody outcome" where
  "okApi = respond 200 (Object emptyBody)"

definition worldAt :: "nat \<Rightarrow> (unit, unit) world" where
  "worldAt t = serverWorld t okToken okWhoami okApi"

text \<open>A client without tenant and region, one with both configured, one with the tenant only.\<close>

definition freshClient :: SophosClient where
  "freshClient = newClient exampleConfig"

definition configuredClient :: SophosClient where
  "configuredClient = newClient configuredConfig"

definition tenantOnlyClient :: SophosClient where
  "tenantOnlyClient = newClient (exampleConfig\<lparr>configTenantId := Some ''tenant-7''\<rparr>)"

text \<open>\<open>freshClient\<close> after a token exchange that ended at time 1005, and after discovery.\<close>

definition cachedClient :: SophosClient where
  "cachedClient = freshClient\<lparr>accessToken := Some ''tok1'', tokenExpiresAt := Some 3541005\<rparr>"

definition discoveredClient :: SophosClient where
  "discoveredClient =
     cachedClient\<lparr>dataRegionUrl := Some ''https://api-us03.central.sophos.com'',
                  tenantId := Some ''tenant-9''\<rparr>"

definition errorCodeToken :: "SophosTokenResponse outcome" where
  "errorCodeToken =
     respond 200 (Object ((tokenBody ''tok1'' 3600)\<lparr>errorCode := Some ''customer.unauthorized''\<rparr>))"

definition unauthorized :: "unit ApiBody Response" where
  "unauthorized =
     \<lparr>status = 401, statusText = ''Unauthorized'', retryAfterHeader = None,
      bodyText = Some ''{}'', bodyJson = Object emptyBody\<rparr>"

definition rateLimited :: "unit ApiBody Response" where
  "rateLimited =
     \<lparr>status = 429, statusText = ''Too Many Requests'', retryAfterHeader = Some ''30'',
      bodyText = None, bodyJson = Unparsable\<rparr>"

definition listEndpoints :: "unit operation" where
  "listEndpoints =
     \<lparr>opDelay = 1000, opMethod = ''GET'', opEndpoint = ''/endpoint/v1/endpoints'',
      opParams = None, opBody = None, opGlobal = False\<rparr>"

fun isApiCall :: "'q call \<Rightarrow> bool" where
  "isApiCall (ApiCall _) = True"
| "isApiCall _ = False"

section \<open>Evaluation and frame lemmas\<close>

lemma digits_of_nat_small: "n < 10 \<Longrightarrow> digits_of_nat n = [''0123456789'' ! n]"
  by (simp add: digits_of_nat.simps)

lemma digits_of_nat_large:
  "\<not> n < 10 \<Longrightarrow> digits_of_nat n = digits_of_nat (n div 10) @ [''0123456789'' ! (n mod 10)]"
  by (subst digits_of_nat.simps) simp

lemma timeout_text: "string_of_int (timeout exampleConfig) = ''30000''"
  by (simp add: string_of_int_def digits_of_nat_small digits_of_nat_large exampleConfig_def)

lemma parseInt10_30: "parseInt10 ''30'' = Num 30"
  by (simp add: parseInt10_def is_space_def is_digit_def digit_val_def)

lemmas world_simps = serverWorld_def respond_def tokenBody_def whoamiBody_def emptyBody_def
  exampleConfig_def newClient_def okToken_def okWhoami_def okApi_def
  worldAt_def freshClient_def cachedClient_def discoveredClient_def
  advance_def fetchToken_def fetchWhoami_def fetchApi_def
  ok_def truthy_def cachedToken_def tokenRequest_def whoamiRequest_def resolved_def
  isAbort_def AbortError_def TypeError_def SyntaxError_def js_or_def js_or_read_def
  readDataRegion_def readId_def interp_def

lemma authenticate_hit:
  "cachedToken c (now w) = Some tok \<Longrightarrow> authenticate c w = (Inr tok, c, w)"
  by (simp add: authenticate_def)

lemma authenticate_world:
  "authenticate c w = (res, c', w') \<Longrightarrow>
     w' = (if cachedToken c (now w) = None
           then advance (TokenCall (tokenRequest (config c))) w else w)"
  by (auto simp: authenticate_def fetchToken_def
      split: option.splits outcome.splits json.splits if_splits)

lemma authenticate_miss_calls:
  assumes "cachedToken c (now w) = None"
  shows "calls (snd (snd (authenticate c w))) = calls w @ [TokenCall (tokenRequest (config c))]"
proof -
  obtain res c' w' where a: "authenticate c w = (res, c', w')"
    by (metis prod_cases3)
  from authenticate_world [OF a] assms
  have "w' = advance (TokenCall (tokenRequest (config c))) w"
    by simp
  with a show ?thesis by (simp add: advance_def)
qed

lemma authenticate_frame:
  "authenticate c w = (res, c', w') \<Longrightarrow>
     config c' = config c \<and> dataRegionUrl c' = dataRegionUrl c \<and> tenantId c' = tenantId c"
  by (auto simp: authenticate_def fetchToken_def
      split: option.splits outcome.splits json.splits if_splits)

lemma authenticate_stores:
  assumes "authenticate c w = (Inr tok, c', w')" and "cachedToken c (now w) = None"
    and "tokenNet w (length (calls w)) = Resolved r" and "bodyJson r = Object tokenData"
  shows "tok = access_token tokenData \<and> accessToken c' = Some tok \<and>
     tokenExpiresAt c' = Some (int (now w') + (expires_in tokenData - 60) * 1000)"
  using assms
  by (auto simp: authenticate_def fetchToken_def split: if_splits)

lemma cachedToken_cleared: "accessToken c = None \<Longrightarrow> cachedToken c t = None"
  by (simp add: cachedToken_def)

lemma authenticate_fresh:
  "authenticate freshClient (worldAt 1000) =
     (Inr ''tok1'', cachedClient, advance (TokenCall (tokenRequest exampleConfig)) (worldAt 1000))"
  by (simp add: authenticate_def world_simps)

section \<open>The credential manager\<close>

text \<open>
  Claim C1. A token stored by a token exchange that ended at time \<open>t0\<close> (the clock of the
  world the exchange returns) with lifetime \<open>expires_in\<close> seconds has its true expiry at
  \<open>T = t0 + 1000 * expires_in\<close> milliseconds. Every later call of \<open>authenticate\<close> at a
  time strictly before \<open>T - 60000\<close> returns that token and leaves client and world (so the
  log of network calls) as they were; every call at or after \<open>T - 60000\<close> issues exactly
  one fetch, the token exchange. In particular the call at \<open>T - 61000\<close> reuses the cache
  and the call at \<open>T - 59000\<close> renews. The cached token is a bearer string, so not empty.
\<close>

theorem authenticate_safety_margin:
  assumes "authenticate c w = (Inr tok, c', w')" and "cachedToken c (now w) = None"
    and "tokenNet w (length (calls w)) = Resolved r" and "bodyJson r = Object tokenData"
    and "tok \<noteq> []"
  shows "(\<forall>w2 :: ('a, 'q) world.
            int (now w2) < int (now w') + expires_in tokenData * 1000 - 60000 \<longrightarrow>
            authenticate c' w2 = (Inr tok, c', w2)) \<and>
         (\<forall>w2 :: ('a, 'q) world.
            int (now w') + expires_in tokenData * 1000 - 60000 \<le> int (now w2) \<longrightarrow>
            calls (snd (snd (authenticate c' w2))) =
              calls w2 @ [TokenCall (tokenRequest (config c'))]) \<and>
         (\<forall>w2 :: ('a, 'q) world.
            int (now w2) = int (now w') + expires_in tokenData * 1000 - 61000 \<longrightarrow>
            authenticate c' w2 = (Inr tok, c', w2)) \<and>
         (\<forall>w2 :: ('a, 'q) world.
            int (now w2) = int (now w') + expires_in tokenData * 1000 - 59000 \<longrightarrow>
            calls (snd (snd (authenticate c' w2))) =
              calls w2 @ [TokenCall (tokenRequest (config c'))])"
proof -
  from authenticate_stores [OF assms(1-4)]
  have st: "accessToken c' = Some tok"
    "tokenExpiresAt c' = Some (int (now w') + (expires_in tokenData - 60) * 1000)"
    by simp_all
  have hit: "authenticate c' w2 = (Inr tok, c', w2)"
    if "int (now w2) < int (now w') + expires_in tokenData * 1000 - 60000"
    for w2 :: "('a, 'q) world"
  proof (rule authenticate_hit)
    from that st assms(5) show "cachedToken c' (now w2) = Some tok"
      by (auto simp: cachedToken_def algebra_simps)
  qed
  have miss: "calls (snd (snd (authenticate c' w2))) =
      calls w2 @ [TokenCall (tokenRequest (config c'))]"
    if "int (now w') + expires_in tokenData * 1000 - 60000 \<le> int (now w2)"
    for w2 :: "('a, 'q) world"
  proof (rule authenticate_miss_calls)
    from that st show "cachedToken c' (now w2) = None"
      by (auto simp: cachedToken_def algebra_simps)
  qed
  show ?thesis
  proof (intro conjI allI impI)
    fix w2 :: "('a, 'q) world"
    assume "int (now w2) < int (now w') + expires_in tokenData * 1000 - 60000"
    then show "authenticate c' w2 = (Inr tok, c', w2)" by (rule hit)
  next
    fix w2 :: "('a, 'q) world"
    assume "int (now w') + expires_in tokenData * 1000 - 60000 \<le> int (now w2)"
    then show "calls (snd (snd (authenticate c' w2))) =
        calls w2 @ [TokenCall (tokenRequest (config c'))]" by (rule miss)
  next
    fix w2 :: "('a, 'q) world"
    assume "int (now w2) = int (now w') + expires_in tokenData * 1000 - 61000"
    then show "authenticate c' w2 = (Inr tok, c', w2)" by (intro hit) simp
  next
    fix w2 :: "('a, 'q) world"
    assume "int (now w2) = int (now w') + expires_in tokenData * 1000 - 59000"
    then show "calls (snd (snd (authenticate c' w2))) =
        calls w2 @ [TokenCall (tokenRequest (config c'))]" by (intro miss) simp
  qed
qed

text \<open>
  The exchange of \<open>freshClient\<close> at time 1000 ends at 1005 with a lifetime of 3600 s, so
  \<open>T = 3601005\<close>: the call at 3540005 is answered from the cache, the call at 3542005
  goes to the token endpoint.
\<close>

theorem authenticate_safety_margin_witness:
  "authenticate freshClient (worldAt 1000) =
     (Inr ''tok1'', cachedClient,
      advance (TokenCall (tokenRequest exampleConfig)) (worldAt 1000)) \<and>
   authenticate cachedClient (worldAt 3540005) = (Inr ''tok1'', cachedClient, worldAt 3540005) \<and>
   calls (snd (snd (authenticate cachedClient (worldAt 3542005)))) =
     [TokenCall (tokenRequest exampleConfig)]"
proof -
  let ?w1 = "advance (TokenCall (tokenRequest exampleConfig)) (worldAt 1000) :: (unit, unit) world"
  let ?r = "\<lparr>status = 200, statusText = ''status'', retryAfterHeader = None,
      bodyText = Some ''text'', bodyJson = Object (tokenBody ''tok1'' 3600)\<rparr>"
  have 2: "cachedToken freshClient (now (worldAt 1000)) = None"
    by (simp add: world_simps)
  have 3: "tokenNet (worldAt 1000) (length (calls (worldAt 1000))) = Resolved ?r"
    by (simp add: world_simps)
  have 4: "bodyJson ?r = Object (tokenBody ''tok1'' 3600)" by simp
  have 5: "''tok1'' \<noteq> []" by simp
  have n: "now ?w1 = 1005" "expires_in (tokenBody ''tok1'' 3600) = 3600"
    "config cachedClient = exampleConfig" "calls (worldAt 3542005) = []"
    "now (worldAt 3540005) = 3540005" "now (worldAt 3542005) = 3542005"
    by (simp_all add: world_simps)
  note m = authenticate_safety_margin [OF authenticate_fresh 2 3 4 5]
  from m have reuse: "int (now w2) = int (now ?w1) + expires_in (tokenBody ''tok1'' 3600) * 1000 - 61000
      \<Longrightarrow> authenticate cachedClient w2 = (Inr ''tok1'', cachedClient, w2)"
    for w2 :: "(unit, unit) world"
    by blast
  from m have renew: "int (now w2) = int (now ?w1) + expires_in (tokenBody ''tok1'' 3600) * 1000 - 59000
      \<Longrightarrow> calls (snd (snd (authenticate cachedClient w2))) =
        calls w2 @ [TokenCall (tokenRequest (config cachedClient))]"
    for w2 :: "(unit, unit) world"
    by blast
  from reuse [of "worldAt 3540005"] renew [of "worldAt 3542005"] authenticate_fresh
  show ?thesis by (simp add: n)
qed

text \<open>
  Claim C5. When the token request of \<open>authenticate\<close> is aborted by the timeout (the fetch
  rejects with an \<open>Error\<close> named \<open>AbortError\<close>), the call fails with a
  \<open>SophosClientError\<close> that is not a \<open>SophosAuthError\<close>; nothing is stored.
\<close>

theorem authenticate_timeout_client_error:
  assumes "cachedToken c (now w) = None" and "tokenNet w (length (calls w)) = Rejected x"
    and "isAbort x"
  shows "\<exists>e. authenticate c w = (Inl e, c, advance (TokenCall (tokenRequest (config c))) w) \<and>
     e = SophosClientError (''OAuth2 token request timed out after '' @
            string_of_int (timeout (config c)) @ ''ms'') None \<and>
     instanceofSophosClientError e \<and> \<not> instanceofSophosAuthError e"
  using assms by (simp add: authenticate_def fetchToken_def)

theorem authenticate_timeout_client_error_witness:
  "isAbort AbortError \<and>
   authenticate freshClient (serverWorld 1000 (Rejected AbortError) okWhoami okApi) =
     (Inl (SophosClientError ''OAuth2 token request timed out after 30000ms'' None), freshClient,
      advance (TokenCall (tokenRequest exampleConfig))
        (serverWorld 1000 (Rejected AbortError) okWhoami okApi))"
proof -
  let ?w = "serverWorld 1000 (Rejected AbortError) okWhoami okApi"
  have 1: "cachedToken freshClient (now ?w) = None"
    by (simp add: world_simps)
  have 2: "tokenNet ?w (length (calls ?w)) = Rejected AbortError"
    by (simp add: serverWorld_def)
  have 3: "isAbort AbortError" by (simp add: isAbort_def AbortError_def)
  have 5: "config freshClient = exampleConfig" by (simp add: freshClient_def newClient_def)
  from authenticate_timeout_client_error [OF 1 2 3] 3 show ?thesis
    by (simp add: timeout_text 5)
qed

text \<open>
  Claim C8. When the token exchange answers with a success status and a body whose
  \<open>errorCode\<close> is set, \<open>authenticate\<close> fails with a \<open>SophosAuthError\<close> and the client
  is unchanged: no token and no expiry are stored.
\<close>

theorem authenticate_error_code_in_success_body:
  assumes "cachedToken c (now w) = None" and "tokenNet w (length (calls w)) = Resolved r"
    and "ok r" and "bodyJson r = Object tokenData" and "truthy (errorCode tokenData)"
  shows "\<exists>e c' w'. authenticate c w = (Inl e, c', w') \<and> instanceofSophosAuthError e \<and>
     c' = c \<and> accessToken c' = accessToken c \<and> tokenExpiresAt c' = tokenExpiresAt c"
  using assms by (simp add: authenticate_def fetchToken_def)

theorem authenticate_error_code_in_success_body_witness:
  "ok \<lparr>status = 200, statusText = ''status'', retryAfterHeader = None, bodyText = Some ''text'',
       bodyJson = Object ((tokenBody ''tok1'' 3600)\<lparr>errorCode := Some ''customer.unauthorized''\<rparr>)\<rparr> \<and>
   (\<exists>e w'. authenticate freshClient (serverWorld 1000 errorCodeToken okWhoami okApi) =
      (Inl e, freshClient, w') \<and> instanceofSophosAuthError e) \<and>
   accessToken freshClient = None"
proof -
  let ?w = "serverWorld 1000 errorCodeToken okWhoami okApi"
  let ?td = "(tokenBody ''tok1'' 3600)\<lparr>errorCode := Some ''customer.unauthorized''\<rparr>"
  let ?r = "\<lparr>status = 200, statusText = ''status'', retryAfterHeader = None,
      bodyText = Some ''text'', bodyJson = Object ?td\<rparr>"
  have 1: "cachedToken freshClient (now ?w) = None" by (simp add: world_simps)
  have 2: "tokenNet ?w (length (calls ?w)) = Resolved ?r"
    by (simp add: serverWorld_def errorCodeToken_def respond_def)
  have 3: "ok ?r" by (simp add: ok_def)
  have 4: "bodyJson ?r = Object ?td" by simp
  have 5: "truthy (errorCode ?td)" by (simp add: truthy_def)
  from authenticate_error_code_in_success_body [OF 1 2 3 4 5] 3 show ?thesis
    by (auto simp: freshClient_def newClient_def)
qed

section \<open>The endpoint resolver\<close>

lemma handleErrorResponse_frame:
  "handleErrorResponse response c = (e, c') \<Longrightarrow>
     config c' = config c \<and> dataRegionUrl c' = dataRegionUrl c \<and> tenantId c' = tenantId c"
  by (auto simp: handleErrorResponse_def Let_def split: if_splits)

lemma discoveryCalls_advance:
  "discoveryCalls (advance cl w) = discoveryCalls w @ (if isWhoamiCall cl then [cl] else [])"
  by (simp add: discoveryCalls_def advance_def)

lemma discoveryCalls_now [simp]: "discoveryCalls (w\<lparr>now := t\<rparr>) = discoveryCalls w"
  by (simp add: discoveryCalls_def)

lemma authenticate_discoveryCalls:
  "authenticate c w = (res, c', w') \<Longrightarrow> discoveryCalls w' = discoveryCalls w"
  by (drule authenticate_world) (simp add: discoveryCalls_advance)

lemma authenticate_resolved:
  "authenticate c w = (res, c', w') \<Longrightarrow> resolved c' = resolved c"
  by (drule authenticate_frame) (simp add: resolved_def)

lemma discoverTenant_noop:
  "resolved c \<Longrightarrow> discoverTenant c w = (Inr (), c, w)"
  by (simp add: discoverTenant_def)

lemma request_resolved:
  assumes "resolved c" and "request method endpoint params bdy g c w = (res, c', w')"
  shows "resolved c' \<and> discoveryCalls w' = discoveryCalls w"
proof -
  obtain ra c2 w2 where a: "authenticate c w = (ra, c2, w2)"
    by (metis prod_cases3)
  note r2 = authenticate_resolved [OF a] and d2 = authenticate_discoveryCalls [OF a]
  show ?thesis
  proof (cases ra)
    case (Inl e)
    with assms a r2 d2 show ?thesis
      by (simp add: request_def discoverTenant_noop)
  next
    case (Inr token)
    have h: "resolved c3" if "handleErrorResponse response c2 = (e, c3)" for response e c3
      using handleErrorResponse_frame [OF that] r2 assms(1) by (simp add: resolved_def)
    from assms a Inr r2 d2 h show ?thesis
      by (auto simp: request_def discoverTenant_noop Let_def fetchApi_def discoveryCalls_advance
          split: if_splits outcome.splits option.splits json.splits prod.splits)
  qed
qed

lemma run_resolved:
  "resolved c \<Longrightarrow> run ops c w = (c', w') \<Longrightarrow>
     resolved c' \<and> discoveryCalls w' = discoveryCalls w"
proof (induction ops arbitrary: c w)
  case Nil
  then show ?case by simp
next
  case (Cons x xs)
  obtain res c1 w1 where r: "request (opMethod x) (opEndpoint x) (opParams x) (opBody x)
      (opGlobal x) c (w\<lparr>now := now w + opDelay x\<rparr>) = (res, c1, w1)"
    by (metis prod_cases3)
  from request_resolved [OF Cons.prems(1) r]
  have 1: "resolved c1" and 2: "discoveryCalls w1 = discoveryCalls w" by simp_all
  from Cons.prems(2) r have "run xs c1 w1 = (c', w')" by simp
  from Cons.IH [OF 1 this] 2 show ?case by simp
qed

lemma discoverTenant_fills:
  assumes "discoverTenant c w = (Inr u, c', w')" and "\<not> resolved c"
  shows "\<exists>r. whoamiNet w (length (calls w') - 1) = Resolved r \<and>
     js_or_read (dataRegionUrl c) (readDataRegion (bodyJson r)) = Inr (dataRegionUrl c') \<and>
     js_or_read (tenantId c) (readId (bodyJson r)) = Inr (tenantId c')"
proof -
  obtain ra c1 w1 where a: "authenticate c w = (ra, c1, w1)"
    by (metis prod_cases3)
  from authenticate_world [OF a] have n: "whoamiNet w1 = whoamiNet w"
    by (simp add: advance_def split: if_splits)
  from authenticate_frame [OF a] assms a n show ?thesis
    by (auto simp: discoverTenant_def fetchWhoami_def advance_def
        split: sum.splits outcome.splits if_splits)
qed

lemma js_or_read_falsy:
  "\<not> truthy a \<Longrightarrow> js_or_read a b = Inr v \<Longrightarrow> \<exists>x. b = Inr x \<and> v = Some x"
  by (auto simp: js_or_read_def js_or_def split: sum.splits)

lemma js_or_read_truthy: "truthy a \<Longrightarrow> js_or_read a b = Inr v \<Longrightarrow> v = a"
  by (simp add: js_or_read_def)

lemma readDataRegion_Inr:
  "readDataRegion b = Inr x \<Longrightarrow>
     \<exists>wh hosts. b = Object wh \<and> apiHosts wh = Some hosts \<and> x = dataRegion hosts"
  by (auto simp: readDataRegion_def split: json.splits option.splits)

lemma readId_Inr: "readId b = Inr x \<Longrightarrow> \<exists>wh. b = Object wh \<and> x = whoamiId wh"
  by (auto simp: readId_def split: json.splits)

lemma discover_fresh:
  "discoverTenant freshClient (serverWorld 1000 okToken okWhoami api) =
     (Inr (), discoveredClient,
      advance (WhoamiCall (whoamiRequest exampleConfig ''tok1''))
        (advance (TokenCall (tokenRequest exampleConfig))
           (serverWorld 1000 okToken okWhoami api)))"
  by (simp add: discoverTenant_def authenticate_def world_simps)

lemma resolved_discoveredClient: "resolved discoveredClient"
  by (simp add: world_simps)

text \<open>
  Claim C6. Once the data-region URL and the tenant identifier are both non-empty,
  \<open>discoverTenant\<close> returns at once, leaving client and world untouched, and no sequence
  of requests issued afterwards (whatever the servers answer and however much time
  passes between them) adds a call of the discovery endpoint to the log; the client
  stays resolved throughout.
\<close>

theorem discovery_never_repeated:
  assumes "resolved c"
  shows "discoverTenant c w = (Inr (), c, w) \<and>
     discoveryCalls (snd (run ops c w)) = discoveryCalls w \<and>
     resolved (fst (run ops c w))"
  using assms run_resolved [of c ops w "fst (run ops c w)" "snd (run ops c w)"]
  by (simp add: discoverTenant_noop)

text \<open>Ten requests of the client that discovered its tenant: no discovery call is logged.\<close>

theorem discovery_never_repeated_witness:
  "resolved discoveredClient \<and>
   discoverTenant discoveredClient (worldAt 2000) = (Inr (), discoveredClient, worldAt 2000) \<and>
   discoveryCalls (snd (run (replicate 10 listEndpoints) discoveredClient (worldAt 2000))) = []"
proof -
  have "discoveryCalls (worldAt 2000) = []"
    by (simp add: discoveryCalls_def world_simps)
  with discovery_never_repeated [OF resolved_discoveredClient,
      of "worldAt 2000" "replicate 10 listEndpoints"] resolved_discoveredClient
  show ?thesis by simp
qed

text \<open>
  Claim C7. After a successful \<open>discoverTenant\<close>, a data-region URL or tenant identifier
  that was set (non-empty) before the call has the value it had, and a field that was
  empty holds the value of the discovery response (\<open>apiHosts.dataRegion\<close>, \<open>id\<close>).
\<close>

theorem discovery_fills_gaps_only:
  assumes "discoverTenant c w = (Inr u, c', w')"
  shows "(truthy (dataRegionUrl c) \<longrightarrow> dataRegionUrl c' = dataRegionUrl c) \<and>
     (truthy (tenantId c) \<longrightarrow> tenantId c' = tenantId c) \<and>
     (\<not> resolved c \<longrightarrow>
        (\<exists>r whoami. whoamiNet w (length (calls w') - 1) = Resolved r \<and>
           bodyJson r = Object whoami \<and>
           (\<not> truthy (dataRegionUrl c) \<longrightarrow>
              (\<exists>hosts. apiHosts whoami = Some hosts \<and>
                 dataRegionUrl c' = Some (dataRegion hosts))) \<and>
           (\<not> truthy (tenantId c) \<longrightarrow> tenantId c' = Some (whoamiId whoami))))"
proof (cases "resolved c")
  case True
  with assms show ?thesis by (simp add: discoverTenant_noop)
next
  case False
  from discoverTenant_fills [OF assms False] obtain r where
    r: "whoamiNet w (length (calls w') - 1) = Resolved r"
    and d: "js_or_read (dataRegionUrl c) (readDataRegion (bodyJson r)) = Inr (dataRegionUrl c')"
    and t: "js_or_read (tenantId c) (readId (bodyJson r)) = Inr (tenantId c')"
    by blast
  have kd: "dataRegionUrl c' = dataRegionUrl c" if "truthy (dataRegionUrl c)"
    using js_or_read_truthy [OF that d] .
  have kt: "tenantId c' = tenantId c" if "truthy (tenantId c)"
    using js_or_read_truthy [OF that t] .
  have fd: "\<exists>wh hosts. bodyJson r = Object wh \<and> apiHosts wh = Some hosts \<and>
      dataRegionUrl c' = Some (dataRegion hosts)" if "\<not> truthy (dataRegionUrl c)"
    using js_or_read_falsy [OF that d] readDataRegion_Inr by blast
  have ft: "\<exists>wh. bodyJson r = Object wh \<and> tenantId c' = Some (whoamiId wh)"
    if "\<not> truthy (tenantId c)"
    using js_or_read_falsy [OF that t] readId_Inr by blast
  from False have "\<not> truthy (dataRegionUrl c) \<or> \<not> truthy (tenantId c)"
    by (simp add: resolved_def)
  with fd ft obtain whoami where b: "bodyJson r = Object whoami" by blast
  from fd b have fd': "\<exists>hosts. apiHosts whoami = Some hosts \<and>
      dataRegionUrl c' = Some (dataRegion hosts)" if "\<not> truthy (dataRegionUrl c)"
    using that by auto
  from ft b have ft': "tenantId c' = Some (whoamiId whoami)" if "\<not> truthy (tenantId c)"
    using that by auto
  from r b kd kt fd' ft' show ?thesis by blast
qed

text \<open>The configured tenant survives discovery; the missing region is discovered.\<close>

theorem discovery_fills_gaps_only_witness:
  "truthy (tenantId tenantOnlyClient) \<and> \<not> truthy (dataRegionUrl tenantOnlyClient) \<and>
   fst (discoverTenant tenantOnlyClient (worldAt 1000)) = Inr () \<and>
   tenantId (fst (snd (discoverTenant tenantOnlyClient (worldAt 1000)))) = Some ''tenant-7'' \<and>
   dataRegionUrl (fst (snd (discoverTenant tenantOnlyClient (worldAt 1000)))) =
     Some ''https://api-us03.central.sophos.com''"
proof -
  let ?d = "discoverTenant tenantOnlyClient (worldAt 1000)"
  have f: "fst ?d = Inr ()"
    by (simp add: discoverTenant_def authenticate_def tenantOnlyClient_def world_simps)
  then have 1: "?d = (Inr (), fst (snd ?d), snd (snd ?d))"
    by (metis prod.collapse)
  have 2: "truthy (tenantId tenantOnlyClient)" "\<not> truthy (dataRegionUrl tenantOnlyClient)"
    "\<not> resolved tenantOnlyClient" "tenantId tenantOnlyClient = Some ''tenant-7''"
    by (simp_all add: tenantOnlyClient_def world_simps)
  have 3: "whoamiNet (worldAt 1000) k = respond 200 (Object whoamiBody)" for k
    by (simp add: world_simps)
  from discovery_fills_gaps_only [OF 1] 2 3 f show ?thesis
    by (auto simp: respond_def whoamiBody_def)
qed

lemma authenticate_error:
  assumes "authenticate c w = (Inl e, c', w')"
    and "\<forall>k x. tokenNet w k = Rejected x \<longrightarrow> isAbort x"
    and "\<forall>k r. tokenNet w k = Resolved r \<longrightarrow> ok r \<longrightarrow> (\<exists>td. bodyJson r = Object td)"
  shows "instanceofSophosClientError e"
proof -
  from assms(2) have 2: "tokenNet w (length (calls w)) = Rejected x \<Longrightarrow> isAbort x" for x
    by blast
  from assms(3) have 3: "tokenNet w (length (calls w)) = Resolved r \<Longrightarrow> ok r \<Longrightarrow>
      \<exists>td. bodyJson r = Object td" for r
    by blast
  from assms(1) 2 3 show ?thesis
    by (fastforce simp: authenticate_def fetchToken_def
        split: option.splits outcome.splits json.splits if_splits)
qed

lemma authenticate_rejected:
  assumes "cachedToken c (now w) = None" and "tokenNet w (length (calls w)) = Rejected x"
    and "\<not> isAbort x"
  shows "authenticate c w = (Inl (Other x), c, advance (TokenCall (tokenRequest (config c))) w)"
  using assms by (simp add: authenticate_def fetchToken_def)

lemma whoami_reads_succeed:
  assumes "bodyJson r = Object wh" and "apiHosts wh = None \<longrightarrow> truthy a"
  shows "\<exists>u. js_or_read a (readDataRegion (bodyJson r)) = Inr u"
    and "\<exists>t. js_or_read b (readId (bodyJson r)) = Inr t"
  using assms
  by (auto simp: js_or_read_def readDataRegion_def readId_def split: option.splits)

text \<open>
  Claim C4, as the code has it. No path of the client classifies a rejection of \<open>fetch\<close>
  other than the timeout abort, a rejection of \<open>json()\<close>, or a \<open>TypeError\<close> raised by
  reading a body that lacks what the cast promises: \<open>authenticate\<close> and \<open>request\<close>
  rethrow what is not an \<open>AbortError\<close>, and nothing validates a body. So a failure of
  \<open>discoverTenant\<close> is a \<open>SophosClientError\<close> (a \<open>SophosAuthError\<close> included) in every
  run in which the token fetch is rejected by the timeout abort only, the fetch of the
  discovery endpoint is not rejected, every success response has a JSON object as its
  body, and the discovery answer has \<open>apiHosts\<close> unless the data-region URL is already
  set. A rejection of the token fetch or of the discovery fetch that is not the timeout
  abort reaches the caller as that rejection, unclassified.
\<close>

theorem discovery_failure_classified:
  assumes "discoverTenant c w = (Inl e, c', w')"
  shows "((\<forall>k x. tokenNet w k = Rejected x \<longrightarrow> isAbort x) \<and>
      (\<forall>k r. tokenNet w k = Resolved r \<longrightarrow> ok r \<longrightarrow> (\<exists>td. bodyJson r = Object td)) \<and>
      (\<forall>k x. whoamiNet w k \<noteq> Rejected x) \<and>
      (\<forall>k r. whoamiNet w k = Resolved r \<longrightarrow> ok r \<longrightarrow>
         (\<exists>wh. bodyJson r = Object wh \<and> (apiHosts wh = None \<longrightarrow> truthy (dataRegionUrl c))))
      \<longrightarrow> instanceofSophosClientError e) \<and>
     (\<forall>x. cachedToken c (now w) = None \<and> tokenNet w (length (calls w)) = Rejected x \<and>
        \<not> isAbort x \<longrightarrow> e = Other x) \<and>
     (\<forall>x token c1 w1. authenticate c w = (Inr token, c1, w1) \<and>
        whoamiNet w (length (calls w1)) = Rejected x \<and> \<not> isAbort x \<longrightarrow> e = Other x)"
proof -
  from assms have nr: "\<not> resolved c"
    by (auto simp: discoverTenant_def split: if_splits)
  obtain ra c1 w1 where a: "authenticate c w = (ra, c1, w1)"
    by (metis prod_cases3)
  from authenticate_world [OF a] have n: "whoamiNet w1 = whoamiNet w"
    by (simp add: advance_def split: if_splits)
  from authenticate_frame [OF a] have fr: "dataRegionUrl c1 = dataRegionUrl c" by simp
  have classified: "instanceofSophosClientError e"
    if t1: "\<forall>k x. tokenNet w k = Rejected x \<longrightarrow> isAbort x"
      and t2: "\<forall>k r. tokenNet w k = Resolved r \<longrightarrow> ok r \<longrightarrow> (\<exists>td. bodyJson r = Object td)"
      and w1: "\<forall>k x. whoamiNet w k \<noteq> Rejected x"
      and w2: "\<forall>k r. whoamiNet w k = Resolved r \<longrightarrow> ok r \<longrightarrow>
         (\<exists>wh. bodyJson r = Object wh \<and> (apiHosts wh = None \<longrightarrow> truthy (dataRegionUrl c)))"
  proof (cases ra)
    case (Inl e1)
    with assms nr a have "e = e1" by (simp add: discoverTenant_def)
    with authenticate_error [OF a [unfolded Inl] t1 t2] show ?thesis by simp
  next
    case (Inr token)
    from w1 have 4: "whoamiNet w (length (calls w1)) \<noteq> Rejected x" for x
      by blast
    have 5: "(\<exists>u. js_or_read (dataRegionUrl c1) (readDataRegion (bodyJson r)) = Inr u) \<and>
        (\<exists>t. js_or_read (tenantId c1) (readId (bodyJson r)) = Inr t) \<and>
        bodyJson r \<noteq> Unparsable"
      if "whoamiNet w (length (calls w1)) = Resolved r" "ok r" for r
    proof -
      from w2 [rule_format, OF that] obtain wh where b: "bodyJson r = Object wh"
        and h: "apiHosts wh = None \<longrightarrow> truthy (dataRegionUrl c)"
        by (elim exE conjE)
      from h fr have h': "apiHosts wh = None \<longrightarrow> truthy (dataRegionUrl c1)" by simp
      from whoami_reads_succeed [OF b h'] b show ?thesis by simp
    qed
    show ?thesis
    proof (cases "whoamiNet w (length (calls w1))")
      case (Rejected x)
      with 4 [of x] show ?thesis by simp
    next
      case (Resolved r)
      show ?thesis
      proof (cases "ok r")
        case True
        from 5 [OF Resolved True] assms nr a Inr n Resolved True show ?thesis
          by (auto simp: discoverTenant_def fetchWhoami_def)
      next
        case False
        with assms nr a Inr n Resolved show ?thesis
          by (auto simp: discoverTenant_def fetchWhoami_def)
      qed
    qed
  qed
  have token: "e = Other x"
    if "cachedToken c (now w) = None" "tokenNet w (length (calls w)) = Rejected x"
      "\<not> isAbort x" for x
    using authenticate_rejected [OF that] assms nr
    by (simp add: discoverTenant_def)
  have whoami: "e = Other x"
    if "authenticate c w = (Inr token, c2, w2)" "whoamiNet w (length (calls w2)) = Rejected x"
    for x token c2 w2
  proof -
    from authenticate_world [OF that(1)] have "whoamiNet w2 = whoamiNet w"
      by (simp add: advance_def split: if_splits)
    with that assms nr show ?thesis
      by (simp add: discoverTenant_def fetchWhoami_def)
  qed
  from classified token whoami show ?thesis by blast
qed

text \<open>
  Discovery whose token exchange times out fails with the timeout client error; discovery
  whose token fetch meets an unreachable host fails with the \<open>TypeError\<close> of \<open>fetch\<close>.
\<close>

theorem discovery_failure_classified_witness:
  "fst (discoverTenant freshClient (serverWorld 1000 (Rejected AbortError) okWhoami okApi)) =
     Inl (SophosClientError ''OAuth2 token request timed out after 30000ms'' None) \<and>
   instanceofSophosClientError
     (SophosClientError ''OAuth2 token request timed out after 30000ms'' None) \<and>
   \<not> isAbort TypeError \<and>
   fst (discoverTenant freshClient (serverWorld 1000 (Rejected TypeError) okWhoami okApi)) =
     Inl (Other TypeError)"
proof -
  let ?w = "serverWorld 1000 (Rejected AbortError) okWhoami okApi"
  let ?e = "SophosClientError ''OAuth2 token request timed out after 30000ms'' None"
  let ?v = "serverWorld 1000 (Rejected TypeError) okWhoami okApi"
  have 1: "discoverTenant freshClient ?w =
      (Inl ?e, freshClient, advance (TokenCall (tokenRequest exampleConfig)) ?w)"
    by (simp add: discoverTenant_def authenticate_def world_simps
        timeout_text [unfolded exampleConfig_def, simplified])
  have 2: "\<forall>k x. tokenNet ?w k = Rejected x \<longrightarrow> isAbort x"
    by (simp add: world_simps)
  have 3: "\<forall>k r. tokenNet ?w k = Resolved r \<longrightarrow> ok r \<longrightarrow> (\<exists>td. bodyJson r = Object td)"
    by (simp add: world_simps)
  have 4: "\<forall>k x. whoamiNet ?w k \<noteq> Rejected x"
    by (simp add: world_simps)
  have 5: "\<forall>k r. whoamiNet ?w k = Resolved r \<longrightarrow> ok r \<longrightarrow>
      (\<exists>wh. bodyJson r = Object wh \<and> (apiHosts wh = None \<longrightarrow> truthy (dataRegionUrl freshClient)))"
    by (auto simp: world_simps)
  from discovery_failure_classified [OF 1] 2 3 4 5
  have a: "instanceofSophosClientError ?e" by blast
  have "\<exists>e c' w'. discoverTenant freshClient ?v = (Inl e, c', w')"
    by (simp add: discoverTenant_def authenticate_def world_simps)
  then obtain e c' w' where 6: "discoverTenant freshClient ?v = (Inl e, c', w')"
    by blast
  have 7: "cachedToken freshClient (now ?v) = None"
    "tokenNet ?v (length (calls ?v)) = Rejected TypeError" "\<not> isAbort TypeError"
    by (simp_all add: world_simps)
  from discovery_failure_classified [OF 6] 7 have "e = Other TypeError"
    by blast
  with 6 have "fst (discoverTenant freshClient ?v) = Inl (Other TypeError)"
    by simp
  with 1 a 7(3) show ?thesis by simp
qed

text \<open>
  As stated, the claim fails: when the fetch of the discovery endpoint is rejected by the
  transport (here a \<open>TypeError\<close>, what \<open>fetch\<close> rejects with when the host cannot be
  reached), \<open>discoverTenant\<close> fails with that very error, which is neither a
  \<open>SophosClientError\<close> nor a \<open>SophosAuthError\<close>.
\<close>

theorem discovery_failure_unclassified_counterexample:
  "fst (discoverTenant freshClient (serverWorld 1000 okToken (Rejected TypeError) okApi)) =
     Inl (Other TypeError) \<and>
   \<not> instanceofSophosClientError (Other TypeError) \<and>
   \<not> instanceofSophosAuthError (Other TypeError)"
  by (simp add: discoverTenant_def authenticate_def world_simps)

text \<open>
  The catch block of \<open>discoverTenant\<close> also lacks the test for \<open>AbortError\<close> that
  \<open>authenticate\<close> and \<open>request\<close> make: a timeout of the discovery call itself reaches the
  caller as the raw \<open>AbortError\<close>.
\<close>

lemma discovery_timeout_rethrown:
  "fst (discoverTenant freshClient (serverWorld 1000 okToken (Rejected AbortError) okApi)) =
     Inl (Other AbortError) \<and> \<not> instanceofSophosClientError (Other AbortError)"
  by (simp add: discoverTenant_def authenticate_def world_simps)

text \<open>
  A discovery answer of status 200 whose body is \<open>null\<close>, or an object without
  \<open>apiHosts\<close>, makes the read at the assignment throw: the caller gets the \<open>TypeError\<close>.
  The same holds for a \<open>null\<close> body of the token exchange.
\<close>

lemma discovery_null_body:
  "fst (discoverTenant freshClient (serverWorld 1000 okToken (respond 200 Null) okApi)) =
     Inl (Other TypeError)"
  by (simp add: discoverTenant_def authenticate_def world_simps)

lemma discovery_without_apiHosts:
  "fst (discoverTenant freshClient
          (serverWorld 1000 okToken (respond 200 (Object (whoamiBody\<lparr>apiHosts := None\<rparr>))) okApi)) =
     Inl (Other TypeError)"
  by (simp add: discoverTenant_def authenticate_def world_simps)

lemma authenticate_null_body:
  "fst (authenticate freshClient (serverWorld 1000 (respond 200 Null) okWhoami okApi)) =
     Inl (Other TypeError)"
  by (simp add: authenticate_def world_simps)

section \<open>The request dispatcher\<close>

lemma request_error_response:
  assumes "discoverTenant c w = (Inr u, c1, w1)"
    and "authenticate c1 w1 = (Inr token, c2, w2)"
    and "validUrl w2 (baseUrl g c2 @ endpoint)"
    and "apiNet w2 (length (calls w2)) = Resolved response"
    and "\<not> ok response"
  shows "request method endpoint params bdy g c w =
     (Inl (fst (handleErrorResponse response c2)), snd (handleErrorResponse response c2),
      advance (ApiCall (apiRequest c2 token method (baseUrl g c2) params bdy g endpoint)) w2)"
  using assms by (simp add: request_def fetchApi_def Let_def split: prod.splits)

lemma authenticate_discovered:
  "authenticate discoveredClient
     (advance (WhoamiCall (whoamiRequest exampleConfig ''tok1''))
        (advance (TokenCall (tokenRequest exampleConfig))
           (serverWorld 1000 okToken okWhoami api))) =
   (Inr ''tok1'', discoveredClient,
    advance (WhoamiCall (whoamiRequest exampleConfig ''tok1''))
      (advance (TokenCall (tokenRequest exampleConfig))
         (serverWorld 1000 okToken okWhoami api)))"
  by (rule authenticate_hit) (simp add: world_simps)

text \<open>
  Claim C2. Whenever a request reaches the network (resolution and authentication went
  through and the URL is well formed) and the response has status 401 or 403,
  \<open>request\<close> fails with a \<open>SophosAuthError\<close> carrying that status, and the client it
  leaves behind has neither token nor expiry, so that the next \<open>authenticate\<close>, in
  whatever world, performs a token exchange.
\<close>

theorem request_auth_failure_clears_token:
  assumes "discoverTenant c w = (Inr u, c1, w1)"
    and "authenticate c1 w1 = (Inr token, c2, w2)"
    and "validUrl w2 (baseUrl g c2 @ endpoint)"
    and "apiNet w2 (length (calls w2)) = Resolved response"
    and "status response = 401 \<or> status response = 403"
  shows "\<exists>m c3 w3.
     request method endpoint params bdy g c w =
       (Inl (SophosAuthError m (Some (status response))), c3, w3) \<and>
     accessToken c3 = None \<and> tokenExpiresAt c3 = None \<and>
     (\<forall>w4 :: ('a, 'q) world.
        calls (snd (snd (authenticate c3 w4))) =
          calls w4 @ [TokenCall (tokenRequest (config c3))])"
proof -
  from assms(5) have nok: "\<not> ok response" by (auto simp: ok_def)
  let ?c3 = "c2\<lparr>accessToken := None, tokenExpiresAt := None\<rparr>"
  from assms(5) obtain m where h: "handleErrorResponse response c2 =
      (SophosAuthError m (Some (status response)), ?c3)"
    by (auto simp: handleErrorResponse_def Let_def)
  have "request method endpoint params bdy g c w =
      (Inl (SophosAuthError m (Some (status response))), ?c3,
       advance (ApiCall (apiRequest c2 token method (baseUrl g c2) params bdy g endpoint)) w2)"
    using request_error_response [OF assms(1-4) nok] h by simp
  moreover have "calls (snd (snd (authenticate ?c3 w4))) =
      calls w4 @ [TokenCall (tokenRequest (config ?c3))]" for w4 :: "('a, 'q) world"
    by (rule authenticate_miss_calls) (simp add: cachedToken_cleared)
  ultimately show ?thesis by auto
qed

text \<open>The first request of \<open>freshClient\<close> is answered with 401.\<close>

theorem request_auth_failure_clears_token_witness:
  "status unauthorized = 401 \<and>
   (\<exists>m c3 w3.
      request ''GET'' ''/endpoint/v1/endpoints'' None None False freshClient
        (serverWorld 1000 okToken okWhoami (Resolved unauthorized)) =
        (Inl (SophosAuthError m (Some 401)), c3, w3) \<and>
      accessToken c3 = None \<and> tokenExpiresAt c3 = None \<and>
      calls (snd (snd (authenticate c3 (worldAt 2000)))) =
        [TokenCall (tokenRequest (config c3))])"
proof -
  let ?w0 = "serverWorld 1000 okToken okWhoami (Resolved unauthorized)"
  let ?w1 = "advance (WhoamiCall (whoamiRequest exampleConfig ''tok1''))
      (advance (TokenCall (tokenRequest exampleConfig)) ?w0)"
  have 3: "validUrl ?w1 (baseUrl False discoveredClient @ ''/endpoint/v1/endpoints'')"
    by (simp add: world_simps)
  have 4: "apiNet ?w1 (length (calls ?w1)) = Resolved unauthorized"
    by (simp add: serverWorld_def advance_def)
  have 5: "status unauthorized = 401 \<or> status unauthorized = 403"
    by (simp add: unauthorized_def)
  have 6: "status unauthorized = 401" "calls (worldAt 2000) = []"
    by (simp_all add: unauthorized_def world_simps)
  from request_auth_failure_clears_token [OF discover_fresh authenticate_discovered 3 4 5,
      of "''GET''" None None]
  obtain m c3 w3 where
    "request ''GET'' ''/endpoint/v1/endpoints'' None None False freshClient ?w0 =
       (Inl (SophosAuthError m (Some (status unauthorized))), c3, w3)"
    "accessToken c3 = None" "tokenExpiresAt c3 = None"
    "\<forall>w4 :: (unit, unit) world. calls (snd (snd (authenticate c3 w4))) =
        calls w4 @ [TokenCall (tokenRequest (config c3))]"
    by blast
  then show ?thesis using 6 by auto
qed

text \<open>
  Claim C3. Whenever a request reaches the network and the response has status 429,
  \<open>request\<close> fails with a \<open>SophosRateLimitError\<close> whose status code is 429; its
  \<open>retryAfter\<close> is the number 30 when the \<open>Retry-After\<close> header is \<open>30\<close>, and is
  undefined when the header is absent. The client is unchanged.
\<close>

theorem request_rate_limited:
  assumes "discoverTenant c w = (Inr u, c1, w1)"
    and "authenticate c1 w1 = (Inr token, c2, w2)"
    and "validUrl w2 (baseUrl g c2 @ endpoint)"
    and "apiNet w2 (length (calls w2)) = Resolved response"
    and "status response = 429"
  shows "\<exists>e w3.
     request method endpoint params bdy g c w = (Inl e, c2, w3) \<and>
     instanceofSophosRateLimitError e \<and> statusCode e = Some 429 \<and>
     (retryAfterHeader response = Some ''30'' \<longrightarrow> retryAfter e = Some (Num 30)) \<and>
     (retryAfterHeader response = None \<longrightarrow> retryAfter e = None)"
proof -
  from assms(5) have nok: "\<not> ok response" by (auto simp: ok_def)
  from assms(5) obtain m where h: "handleErrorResponse response c2 =
      (SophosRateLimitError m
         (case retryAfterHeader response of None \<Rightarrow> None
          | Some h \<Rightarrow> if h \<noteq> [] then Some (parseInt10 h) else None), c2)"
    by (auto simp: handleErrorResponse_def Let_def)
  show ?thesis
    using request_error_response [OF assms(1-4) nok] h
    by (auto simp: parseInt10_30)
qed

text \<open>The first request of \<open>freshClient\<close> is answered with 429 and \<open>Retry-After: 30\<close>.\<close>

theorem request_rate_limited_witness:
  "status rateLimited = 429 \<and> retryAfterHeader rateLimited = Some ''30'' \<and>
   (\<exists>e w3.
      request ''GET'' ''/endpoint/v1/endpoints'' None None False freshClient
        (serverWorld 1000 okToken okWhoami (Resolved rateLimited)) = (Inl e, discoveredClient, w3) \<and>
      instanceofSophosRateLimitError e \<and> statusCode e = Some 429 \<and>
      retryAfter e = Some (Num 30))"
proof -
  let ?w0 = "serverWorld 1000 okToken okWhoami (Resolved rateLimited)"
  let ?w1 = "advance (WhoamiCall (whoamiRequest exampleConfig ''tok1''))
      (advance (TokenCall (tokenRequest exampleConfig)) ?w0)"
  have 3: "validUrl ?w1 (baseUrl False discoveredClient @ ''/endpoint/v1/endpoints'')"
    by (simp add: world_simps)
  have 4: "apiNet ?w1 (length (calls ?w1)) = Resolved rateLimited"
    by (simp add: serverWorld_def advance_def)
  have 5: "status rateLimited = 429" "retryAfterHeader rateLimited = Some ''30''"
    by (simp_all add: rateLimited_def)
  from request_rate_limited [OF discover_fresh authenticate_discovered 3 4 5(1),
      of "''GET''" None None] 5
  show ?thesis by auto
qed

text \<open>
  Claim C9. Handling a response of status 401 or 403 changes the access token and the
  token expiry and nothing else: configuration, data-region URL and tenant identifier are
  those of before. So a resolved client is still resolved: \<open>discoverTenant\<close> remains a
  no-op after the error, and the re-authentication logs the token exchange alone.
\<close>

theorem auth_failure_frame:
  assumes "status response = 401 \<or> status response = 403"
    and "handleErrorResponse response c = (e, c')"
  shows "c' = c\<lparr>accessToken := None, tokenExpiresAt := None\<rparr> \<and>
     config c' = config c \<and> dataRegionUrl c' = dataRegionUrl c \<and> tenantId c' = tenantId c \<and>
     (resolved c \<longrightarrow>
        (\<forall>w :: ('a, 'q) world.
           discoverTenant c' w = (Inr (), c', w) \<and>
           calls (snd (snd (authenticate c' w))) =
             calls w @ [TokenCall (tokenRequest (config c))]))"
proof -
  from assms have c': "c' = c\<lparr>accessToken := None, tokenExpiresAt := None\<rparr>"
    by (auto simp: handleErrorResponse_def Let_def)
  have "calls (snd (snd (authenticate c' w))) = calls w @ [TokenCall (tokenRequest (config c'))]"
    for w :: "('a, 'q) world"
    by (rule authenticate_miss_calls) (simp add: cachedToken_cleared c')
  moreover have "discoverTenant c' w = (Inr (), c', w)" if "resolved c" for w :: "('a, 'q) world"
    using that by (simp add: discoverTenant_def resolved_def c')
  ultimately show ?thesis using c' by simp
qed

theorem auth_failure_frame_witness:
  "status unauthorized = 401 \<and> resolved discoveredClient \<and>
   snd (handleErrorResponse unauthorized discoveredClient) =
     discoveredClient\<lparr>accessToken := None, tokenExpiresAt := None\<rparr> \<and>
   discoverTenant (snd (handleErrorResponse unauthorized discoveredClient)) (worldAt 5000) =
     (Inr (), snd (handleErrorResponse unauthorized discoveredClient), worldAt 5000)"
proof -
  have 1: "status unauthorized = 401 \<or> status unauthorized = 403"
    and 2: "status unauthorized = 401"
    by (simp_all add: unauthorized_def)
  have 3: "handleErrorResponse unauthorized discoveredClient =
      (fst (handleErrorResponse unauthorized discoveredClient),
       snd (handleErrorResponse unauthorized discoveredClient))"
    by simp
  note t = auth_failure_frame [OF 1 3, where ?'a = unit and ?'q = unit]
  from t have a: "snd (handleErrorResponse unauthorized discoveredClient) =
      discoveredClient\<lparr>accessToken := None, tokenExpiresAt := None\<rparr>"
    by blast
  from t resolved_discoveredClient
  have b: "discoverTenant (snd (handleErrorResponse unauthorized discoveredClient)) (worldAt 5000) =
      (Inr (), snd (handleErrorResponse unauthorized discoveredClient), worldAt 5000)"
    by blast
  from a b 2 resolved_discoveredClient show ?thesis by blast
qed

lemma authenticate_calls:
  assumes "authenticate c w = (res, c', w')"
  shows "\<exists>xs. calls w' = calls w @ xs \<and> (\<forall>x \<in> set xs. \<not> isApiCall x)"
  using authenticate_world [OF assms]
  by (auto simp: advance_def split: if_splits)

lemma discoverTenant_calls:
  assumes "discoverTenant c w = (res, c', w')"
  shows "\<exists>xs. calls w' = calls w @ xs \<and> (\<forall>x \<in> set xs. \<not> isApiCall x)"
proof (cases "resolved c")
  case True
  with assms show ?thesis by (simp add: discoverTenant_def)
next
  case False
  obtain ra c1 w1 where a: "authenticate c w = (ra, c1, w1)"
    by (metis prod_cases3)
  from authenticate_calls [OF a] obtain xs where
    xs: "calls w1 = calls w @ xs" "\<forall>x \<in> set xs. \<not> isApiCall x" by blast
  have "w' = w1 \<or> (\<exists>rq. w' = advance (WhoamiCall rq) w1)"
    using assms False a
    by (auto simp: discoverTenant_def fetchWhoami_def
        split: sum.splits outcome.splits if_splits option.splits json.splits)
  then show ?thesis
  proof
    assume "w' = w1"
    with xs show ?thesis by blast
  next
    assume "\<exists>rq. w' = advance (WhoamiCall rq) w1"
    then obtain rq where "w' = advance (WhoamiCall rq) w1" ..
    with xs have "calls w' = calls w @ (xs @ [WhoamiCall rq])"
      "\<forall>x \<in> set (xs @ [WhoamiCall rq]). \<not> isApiCall x"
      by (simp_all add: advance_def)
    then show ?thesis by blast
  qed
qed

text \<open>Every data call that a request logs goes to the selected base, with the given method.\<close>

lemma request_target:
  assumes "request method endpoint params bdy g c w = (res, c', w')"
    and "ApiCall rq \<in> set (newCalls w w')"
  shows "url rq = baseUrl g c' @ endpoint \<and> httpMethod rq = method"
proof -
  obtain rd c1 w1 where d: "discoverTenant c w = (rd, c1, w1)"
    by (metis prod_cases3)
  obtain ra c2 w2 where a: "authenticate c1 w1 = (ra, c2, w2)"
    by (metis prod_cases3)
  from discoverTenant_calls [OF d] obtain xs where
    xs: "calls w1 = calls w @ xs" "\<forall>x \<in> set xs. \<not> isApiCall x" by blast
  from authenticate_calls [OF a] obtain ys where
    ys: "calls w2 = calls w1 @ ys" "\<forall>x \<in> set ys. \<not> isApiCall x" by blast
  have n1: "newCalls w w1 = xs" and n2: "newCalls w w2 = xs @ ys"
    using xs ys by (simp_all add: newCalls_def)
  have no1: "ApiCall rq \<notin> set (newCalls w w1)" and no2: "ApiCall rq \<notin> set (newCalls w w2)"
    using xs(2) ys(2) n1 n2 by auto
  have n3: "newCalls w (advance cl w2) = xs @ ys @ [cl]" for cl
    using xs ys by (simp add: newCalls_def advance_def)
  have b: "baseUrl g c3 = baseUrl g c2" if "handleErrorResponse response c2 = (e, c3)"
    for response e c3
    using handleErrorResponse_frame [OF that] by (simp add: baseUrl_def)
  show ?thesis
  proof (cases rd)
    case (Inl e)
    with assms d no1 show ?thesis by (simp add: request_def)
  next
    case rdr: (Inr u)
    show ?thesis
    proof (cases ra)
      case (Inl e)
      with assms d a rdr no2 show ?thesis by (simp add: request_def)
    next
      case (Inr token)
      let ?rq = "apiRequest c2 token method (baseUrl g c2) params bdy g endpoint"
      have "(w' = w2) \<or> (w' = advance (ApiCall ?rq) w2 \<and> baseUrl g c' = baseUrl g c2)"
        using assms(1) d a rdr Inr b
        by (auto simp: request_def Let_def fetchApi_def
            split: if_splits outcome.splits option.splits json.splits prod.splits)
      then show ?thesis
      proof
        assume "w' = w2"
        with assms(2) no2 show ?thesis by simp
      next
        assume h: "w' = advance (ApiCall ?rq) w2 \<and> baseUrl g c' = baseUrl g c2"
        with assms(2) n3 [of "ApiCall ?rq"] xs(2) ys(2) have "rq = ?rq" by auto
        with h show ?thesis by (simp add: apiRequest_def)
      qed
    qed
  qed
qed

text \<open>
  Claim C10. \<open>patch\<close> and \<open>delete\<close> take no flag for the global host and call \<open>request\<close>
  with \<open>useGlobalUrl\<close> false: every data call they log has the data-region URL of the
  client as its base. \<open>get\<close> and \<open>post\<close> pass their flag on: with the flag set, the
  data call they log has the global URL of the configuration as its base.
\<close>

theorem patch_delete_target_data_region:
  "patch endpoint bdy params = request ''PATCH'' endpoint params bdy False \<and>
   delete endpoint params = request ''DELETE'' endpoint params None False \<and>
   (\<forall>rq. patch endpoint bdy params c w = (res, c', w') \<and> ApiCall rq \<in> set (newCalls w w') \<longrightarrow>
      url rq = interp (dataRegionUrl c') @ endpoint \<and> httpMethod rq = ''PATCH'') \<and>
   (\<forall>rq. delete endpoint params c w = (res, c', w') \<and> ApiCall rq \<in> set (newCalls w w') \<longrightarrow>
      url rq = interp (dataRegionUrl c') @ endpoint \<and> httpMethod rq = ''DELETE'') \<and>
   (\<forall>rq. get endpoint params g c w = (res, c', w') \<and> ApiCall rq \<in> set (newCalls w w') \<longrightarrow>
      url rq = (if g then globalUrl (config c') else interp (dataRegionUrl c')) @ endpoint \<and>
      httpMethod rq = ''GET'') \<and>
   (\<forall>rq. post endpoint bdy params g c w = (res, c', w') \<and> ApiCall rq \<in> set (newCalls w w') \<longrightarrow>
      url rq = (if g then globalUrl (config c') else interp (dataRegionUrl c')) @ endpoint \<and>
      httpMethod rq = ''POST'')"
proof -
  have p: "patch endpoint bdy params = request ''PATCH'' endpoint params bdy False"
    by (simp add: patch_def fun_eq_iff)
  have d: "delete endpoint params = request ''DELETE'' endpoint params None False"
    by (simp add: delete_def fun_eq_iff)
  show ?thesis
    using request_target [of _ endpoint params _ _ c w res c' w']
    by (auto simp: p d get_def post_def baseUrl_def)
qed

text \<open>
  A \<open>patch\<close> of the configured client logs a data call to its region; a \<open>get\<close> with the
  flag set logs one to the global host.
\<close>

theorem patch_delete_target_data_region_witness:
  "(\<exists>rq. ApiCall rq \<in> set (newCalls (worldAt 1000)
            (snd (snd (patch ''/xdr/v1/threat-cases/7'' None None configuredClient (worldAt 1000))))) \<and>
      url rq = ''https://api-eu01.central.sophos.com/xdr/v1/threat-cases/7'' \<and>
      httpMethod rq = ''PATCH'') \<and>
   (\<exists>rq. ApiCall rq \<in> set (newCalls (worldAt 1000)
            (snd (snd (get ''/partner/v1/tenants'' None True configuredClient (worldAt 1000))))) \<and>
      url rq = ''https://api.central.sophos.com/partner/v1/tenants'' \<and>
      httpMethod rq = ''GET'')"
proof -
  let ?p = "patch ''/xdr/v1/threat-cases/7'' None None configuredClient (worldAt 1000)"
  let ?g = "get ''/partner/v1/tenants'' None True configuredClient (worldAt 1000)"
  note ev = patch_def get_def request_def discoverTenant_def authenticate_def Let_def
    newCalls_def configuredClient_def configuredConfig_def world_simps
  have p1: "\<exists>rq. ApiCall rq \<in> set (newCalls (worldAt 1000) (snd (snd ?p)))"
    by (simp add: ev)
  have p2: "dataRegionUrl (fst (snd ?p)) = Some ''https://api-eu01.central.sophos.com''"
    by (simp add: ev)
  have p3: "?p = (fst ?p, fst (snd ?p), snd (snd ?p))" by simp
  have g1: "\<exists>rq. ApiCall rq \<in> set (newCalls (worldAt 1000) (snd (snd ?g)))"
    by (simp add: ev)
  have g2: "globalUrl (config (fst (snd ?g))) = ''https://api.central.sophos.com''"
    by (simp add: ev)
  have g3: "?g = (fst ?g, fst (snd ?g), snd (snd ?g))" by simp
  from p1 obtain rq where rq: "ApiCall rq \<in> set (newCalls (worldAt 1000) (snd (snd ?p)))" ..
  from g1 obtain rg where rg: "ApiCall rg \<in> set (newCalls (worldAt 1000) (snd (snd ?g)))" ..
  from patch_delete_target_data_region
    [of "''/xdr/v1/threat-cases/7''" None None configuredClient "worldAt 1000"
      "fst ?p" "fst (snd ?p)" "snd (snd ?p)"] p3 rq
  have "url rq = interp (dataRegionUrl (fst (snd ?p))) @ ''/xdr/v1/threat-cases/7'' \<and>
      httpMethod rq = ''PATCH''"
    by blast
  with p2 rq have a: "\<exists>rq. ApiCall rq \<in> set (newCalls (worldAt 1000) (snd (snd ?p))) \<and>
      url rq = ''https://api-eu01.central.sophos.com/xdr/v1/threat-cases/7'' \<and>
      httpMethod rq = ''PATCH''"
    by (auto simp: interp_def)
  from request_target [of "''GET''" "''/partner/v1/tenants''" None None True configuredClient
      "worldAt 1000" "fst ?g" "fst (snd ?g)" "snd (snd ?g)" rg] g3 rg
  have "url rg = baseUrl True (fst (snd ?g)) @ ''/partner/v1/tenants'' \<and> httpMethod rg = ''GET''"
    by (simp add: get_def)
  with g2 rg have b: "\<exists>rq. ApiCall rq \<in> set (newCalls (worldAt 1000) (snd (snd ?g))) \<and>
      url rq = ''https://api.central.sophos.com/partner/v1/tenants'' \<and> httpMethod rq = ''GET''"
    by (auto simp: baseUrl_def)
  from a b show ?thesis by blast
qed

end
